theory Spec2Isabelle
  imports Main "HOL-Library.Multiset"
begin

section \<open>Tiles\<close>

text \<open>
  \<^verbatim>\<open>TileDefinition\<close> of \<^verbatim>\<open>types.ts\<close>. The two optional fields are \<open>None\<close> when the
  property is \<^verbatim>\<open>undefined\<close>; \<open>Some ''''\<close> is the empty string, which is a different
  JavaScript value. The field \<^verbatim>\<open>id\<close> is named \<open>tile_id\<close> here, since \<open>id\<close> is the
  identity function of HOL.
\<close>

record tile =
  tile_id :: string
  label :: string
  url :: string
  icon :: string
  imageUrl :: "string option"
  description :: "string option"

section \<open>The editor component (LinkManager)\<close>

text \<open>
  The state of the \<^verbatim>\<open>LinkManager\<close> component: its four \<^verbatim>\<open>useState\<close> cells, and next to
  them what the handlers do to the world outside React: the messages passed to
  \<^verbatim>\<open>window.alert\<close>, the lines written with \<^verbatim>\<open>console.error\<close>, and the uploads that
  were issued and have not settled yet (tile id and file name of each).
  The cell \<^verbatim>\<open>tiles\<close> is named \<open>lm_tiles\<close>, since the \<^verbatim>\<open>App\<close> component has a cell of
  the same name. The record is polymorphic in the type of an array element: the
  field handlers work on \<open>tile\<close>, the drag handlers on any element that may also be
  \<^verbatim>\<open>undefined\<close> (\<open>'a option\<close>, with \<open>None\<close> for \<^verbatim>\<open>undefined\<close>).
\<close>

record 'a link_manager =
  lm_tiles :: "'a list"
  uploadingId :: "string option"
  draggedIndex :: "nat option"
  dragOverIndex :: "nat option"
  alerts :: "string list"
  console_errors :: "string list"
  pending_uploads :: "(string \<times> string) list"

subsection \<open>Drag and drop\<close>

text \<open>
  \<^verbatim>\<open>Array.prototype.splice(start, deleteCount, ...items)\<close> for a start and a count that
  are non-negative integers, as the indices of \<^verbatim>\<open>tiles.map((tile, index) => ...)\<close> are:
  the start is clamped to the length, the count to what is left after the start.
  The result is the array of the removed elements and the array after the call.
\<close>

definition splice :: "nat \<Rightarrow> nat \<Rightarrow> 'a list \<Rightarrow> 'a list \<Rightarrow> 'a list \<times> 'a list" where
  "splice start deleteCount items xs =
     (let actualStart = min start (length xs);
          actualDeleteCount = min deleteCount (length xs - actualStart)
      in (take actualDeleteCount (drop actualStart xs),
          take actualStart xs @ items @ drop (actualStart + actualDeleteCount) xs))"

text \<open>
  The destructuring \<^verbatim>\<open>const [draggedTile] = ...\<close>: the first element of the array, and
  \<^verbatim>\<open>undefined\<close> when the array is empty.
\<close>

definition first_of :: "'a option list \<Rightarrow> 'a option" where
  "first_of xs = (case xs of [] \<Rightarrow> None | x # _ \<Rightarrow> x)"

definition handleDragStart :: "nat \<Rightarrow> 'a link_manager \<Rightarrow> 'a link_manager" where
  "handleDragStart index s = s\<lparr>draggedIndex := Some index\<rparr>"

definition handleDragOver :: "nat \<Rightarrow> 'a link_manager \<Rightarrow> 'a link_manager" where
  "handleDragOver index s =
     (if draggedIndex s \<noteq> None \<and> draggedIndex s \<noteq> Some index
      then s\<lparr>dragOverIndex := Some index\<rparr> else s)"

definition handleDragLeave :: "'a link_manager \<Rightarrow> 'a link_manager" where
  "handleDragLeave s = s\<lparr>dragOverIndex := None\<rparr>"

definition handleDragEnd :: "'a link_manager \<Rightarrow> 'a link_manager" where
  "handleDragEnd s = s\<lparr>draggedIndex := None, dragOverIndex := None\<rparr>"

text \<open>
  \<^verbatim>\<open>handleDrop\<close>: nothing moves when no drag is in progress or the tile is dropped on
  itself; otherwise the dragged element is taken out of a copy of the array and put
  back at the drop index. There is no other guard: the indices are not compared with
  the length of the array.
\<close>

definition handleDrop :: "nat \<Rightarrow> 'a option link_manager \<Rightarrow> 'a option link_manager" where
  "handleDrop dropIndex s =
     (case draggedIndex s of
        None \<Rightarrow> s\<lparr>draggedIndex := None, dragOverIndex := None\<rparr>
      | Some dragged \<Rightarrow>
          if dragged = dropIndex then s\<lparr>draggedIndex := None, dragOverIndex := None\<rparr>
          else
            let newTiles = lm_tiles s;
                (removed, newTiles1) = splice dragged 1 [] newTiles;
                draggedTile = first_of removed;
                (unused, newTiles2) = splice dropIndex 0 [draggedTile] newTiles1
            in s\<lparr>lm_tiles := newTiles2, draggedIndex := None, dragOverIndex := None\<rparr>)"

subsection \<open>Editing, adding\<close>

text \<open>
  \<^verbatim>\<open>keyof TileDefinition\<close>, and the object spread \<^verbatim>\<open>{ ...t, [field]: value }\<close> with a
  string value: an optional field that is written holds a string afterwards, the empty
  string included.
\<close>

datatype field = FieldId | FieldLabel | FieldUrl | FieldIcon | FieldImageUrl | FieldDescription

fun set_field :: "field \<Rightarrow> string \<Rightarrow> tile \<Rightarrow> tile" where
  "set_field FieldId v t = t\<lparr>tile_id := v\<rparr>"
| "set_field FieldLabel v t = t\<lparr>label := v\<rparr>"
| "set_field FieldUrl v t = t\<lparr>url := v\<rparr>"
| "set_field FieldIcon v t = t\<lparr>icon := v\<rparr>"
| "set_field FieldImageUrl v t = t\<lparr>imageUrl := Some v\<rparr>"
| "set_field FieldDescription v t = t\<lparr>description := Some v\<rparr>"

definition handleUpdateTile :: "string \<Rightarrow> field \<Rightarrow> string \<Rightarrow> tile link_manager \<Rightarrow> tile link_manager" where
  "handleUpdateTile i f v s =
     s\<lparr>lm_tiles := map (\<lambda>t. if tile_id t = i then set_field f v t else t) (lm_tiles s)\<rparr>"

text \<open>
  The decimal digits of a number, as the template literal \<^verbatim>\<open>`${Date.now()}`\<close> writes
  them. \<^verbatim>\<open>Date.now()\<close> is the clock of the browser in milliseconds since the epoch, a
  natural number on any clock set after 1970; it is an argument of every handler that
  reads it.
\<close>

fun string_of_nat :: "nat \<Rightarrow> string" where
  "string_of_nat n =
     (if n < 10 then [''0123456789'' ! n]
      else string_of_nat (n div 10) @ [''0123456789'' ! (n mod 10)])"

declare string_of_nat.simps [simp del]

text \<open>
  Reading the digits back gives the number, so different numbers have different
  digits. These two functions are used in proofs only.
\<close>

definition digit_value :: "char \<Rightarrow> nat" where
  "digit_value c = of_char c - 48"

definition nat_of_string :: "string \<Rightarrow> nat" where
  "nat_of_string s = foldl (\<lambda>a c. 10 * a + digit_value c) 0 s"

definition custom_id :: "nat \<Rightarrow> string" where
  "custom_id now = ''custom-'' @ string_of_nat now"

definition handleAddTile :: "nat \<Rightarrow> tile link_manager \<Rightarrow> tile link_manager" where
  "handleAddTile now s =
     (let newId = custom_id now;
          newTile = \<lparr>tile_id = newId, label = ''New App'', url = [], icon = ''Globe'',
                     imageUrl = None, description = Some ''Description here''\<rparr>
      in s\<lparr>lm_tiles := lm_tiles s @ [newTile]\<rparr>)"

text \<open>A run of calls of \<^verbatim>\<open>handleAddTile\<close>, one for each clock reading of the list.\<close>

fun addTiles :: "nat list \<Rightarrow> tile link_manager \<Rightarrow> tile link_manager" where
  "addTiles [] s = s"
| "addTiles (now # later) s = addTiles later (handleAddTile now s)"

subsection \<open>Images\<close>

text \<open>
  What the handlers read of a \<^verbatim>\<open>File\<close>, and how a call of the storage client ends for
  its caller: the promise resolves with no error in its result, it resolves with an
  error in its result (what \<^verbatim>\<open>handleImageUpload\<close> destructures as \<^verbatim>\<open>uploadError\<close>), or
  it rejects and the \<^verbatim>\<open>await\<close> throws. The client is not part of the repository; its
  answers, and the public URL it gives for a file name, are arguments.
\<close>

record upload_file =
  file_size :: nat
  file_name :: string

datatype storage_outcome = StorageOk | StorageError | StorageThrew

text \<open>\<^verbatim>\<open>s.split(c).pop()\<close>: the text after the last \<open>c\<close>, all of \<open>s\<close> when it has none.\<close>

definition split_pop :: "char \<Rightarrow> string \<Rightarrow> string" where
  "split_pop c s = rev (takeWhile (\<lambda>x. x \<noteq> c) (rev s))"

definition upload_name :: "string \<Rightarrow> nat \<Rightarrow> upload_file \<Rightarrow> string" where
  "upload_name i now f =
     (let fileExt = split_pop CHR ''.'' (file_name f)
      in i @ ''-'' @ string_of_nat now @ ''.'' @ fileExt)"

text \<open>
  \<^verbatim>\<open>handleImageUpload\<close> is an async function: it runs to its \<^verbatim>\<open>await\<close>, and goes on when
  the upload has settled. Other handlers can run in between, so the two parts are two
  steps. The first part is the size check, \<^verbatim>\<open>setUploadingId(id)\<close> and the call of the
  client; the second part is what follows the \<^verbatim>\<open>await\<close>, with the \<^verbatim>\<open>catch\<close> and the
  \<^verbatim>\<open>finally\<close> block.
\<close>

definition handleImageUpload_start :: "nat \<Rightarrow> string \<Rightarrow> upload_file \<Rightarrow> tile link_manager \<Rightarrow> tile link_manager" where
  "handleImageUpload_start now i f s =
     (if file_size f > 2 * 1024 * 1024
      then s\<lparr>alerts := alerts s @ [''Image is too large. Please use an image smaller than 2MB.'']\<rparr>
      else s\<lparr>uploadingId := Some i,
             pending_uploads := pending_uploads s @ [(i, upload_name i now f)]\<rparr>)"

definition handleImageUpload_settled ::
    "(string \<Rightarrow> string) \<Rightarrow> string \<Rightarrow> string \<Rightarrow> storage_outcome \<Rightarrow> tile link_manager \<Rightarrow> tile link_manager" where
  "handleImageUpload_settled getPublicUrl i fileName outcome s =
     (let s1 = (case outcome of
                  StorageOk \<Rightarrow> handleUpdateTile i FieldImageUrl (getPublicUrl fileName) s
                | StorageError \<Rightarrow>
                    s\<lparr>alerts := alerts s @ [''Failed to upload image. Please try again.''],
                      console_errors := console_errors s @ [''Error uploading image:'']\<rparr>
                | StorageThrew \<Rightarrow>
                    s\<lparr>alerts := alerts s @ [''Failed to upload image. Please try again.''],
                      console_errors := console_errors s @ [''Error uploading image:'']\<rparr>)
      in s1\<lparr>uploadingId := None,
             pending_uploads := remove1 (i, fileName) (pending_uploads s1)\<rparr>)"

text \<open>The whole call, when no other handler runs while the upload is in flight.\<close>

definition handleImageUpload ::
    "(string \<Rightarrow> string) \<Rightarrow> nat \<Rightarrow> string \<Rightarrow> upload_file \<Rightarrow> storage_outcome \<Rightarrow> tile link_manager \<Rightarrow> tile link_manager" where
  "handleImageUpload getPublicUrl now i f outcome s =
     (if file_size f > 2 * 1024 * 1024 then handleImageUpload_start now i f s
      else handleImageUpload_settled getPublicUrl i (upload_name i now f) outcome
             (handleImageUpload_start now i f s))"

text \<open>
  \<^verbatim>\<open>handleRemoveImage(id, imageUrl)\<close>: nothing happens for an \<^verbatim>\<open>undefined\<close> or empty URL.
  Otherwise the file is removed from the storage inside a \<^verbatim>\<open>try\<close>: only a call that
  throws reaches the \<^verbatim>\<open>catch\<close> and is logged; the result of a call that resolves is not
  read. The name of the removed file (the text after the last slash of the URL) goes
  to the client only. Then the field is set to the empty string.
\<close>

definition handleRemoveImage ::
    "string \<Rightarrow> string option \<Rightarrow> storage_outcome \<Rightarrow> tile link_manager \<Rightarrow> tile link_manager" where
  "handleRemoveImage i imgUrl outcome s =
     (if imgUrl = None \<or> imgUrl = Some [] then s
      else
        let s1 = (case outcome of
                    StorageOk \<Rightarrow> s
                  | StorageError \<Rightarrow> s
                  | StorageThrew \<Rightarrow>
                      s\<lparr>console_errors := console_errors s @ [''Error deleting image from storage:'']\<rparr>)
        in handleUpdateTile i FieldImageUrl [] s1)"

subsection \<open>The save button\<close>

text \<open>
  The button is rendered with \<^verbatim>\<open>disabled={isSaving || uploadingId !== null}\<close>; a click
  on an enabled button calls \<^verbatim>\<open>onSave(tiles)\<close>. \<open>None\<close>: the button is disabled and the
  click does nothing; \<open>Some ts\<close>: \<^verbatim>\<open>onSave\<close> is called with \<open>ts\<close>.
\<close>

definition save_disabled :: "bool \<Rightarrow> 'a link_manager \<Rightarrow> bool" where
  "save_disabled saving s = (saving \<or> uploadingId s \<noteq> None)"

definition click_save :: "bool \<Rightarrow> 'a link_manager \<Rightarrow> 'a list option" where
  "click_save saving s = (if save_disabled saving s then None else Some (lm_tiles s))"

section \<open>The remote table\<close>

text \<open>
  The table \<^verbatim>\<open>tiles\<close> of the setup guide: \<^verbatim>\<open>id TEXT PRIMARY KEY\<close>, the text columns,
  \<^verbatim>\<open>sort_order INTEGER\<close> and \<^verbatim>\<open>updated_at\<close>, which the column default \<^verbatim>\<open>NOW()\<close> fills on
  insert (a time in milliseconds since the epoch here). \<^verbatim>\<open>created_at\<close> is never read and is left out.
  A nullable column holds \<open>None\<close> for \<^verbatim>\<open>NULL\<close>. \<open>insert_row\<close> is an object of the array
  passed to \<^verbatim>\<open>insert\<close>, \<open>row\<close> a stored row.
\<close>

record insert_row =
  ins_id :: string
  ins_label :: string
  ins_url :: string
  ins_icon :: string
  ins_image_url :: "string option"
  ins_description :: "string option"
  ins_sort_order :: int

record row =
  row_id :: string
  row_label :: string
  row_url :: string
  row_icon :: string
  image_url :: "string option"
  row_description :: "string option"
  sort_order :: int
  updated_at :: nat

datatype store_error = StoreUnavailable | ConstraintViolation

text \<open>
  The three requests the application sends. Each can fail for a reason of the
  transport or the service (the flag); a request that fails leaves the table as it was.
  \<^item> \<^verbatim>\<open>select('*').order('sort_order', { ascending: true })\<close>: all rows, ascending in
    \<open>sort_order\<close> (rows of equal \<open>sort_order\<close> in the order of the table);
  \<^item> \<^verbatim>\<open>delete().neq('id', '')\<close>: deletes the rows whose id is not the empty string, so a
    row with an empty id stays;
  \<^item> \<^verbatim>\<open>insert(rows)\<close>: all rows or none; the primary key refuses an id that the table or
    the request holds already.
\<close>

definition store_select :: "bool \<Rightarrow> row list \<Rightarrow> store_error + row list" where
  "store_select fails db = (if fails then Inl StoreUnavailable else Inr (sort_key sort_order db))"

definition store_delete :: "bool \<Rightarrow> row list \<Rightarrow> store_error option \<times> row list" where
  "store_delete fails db =
     (if fails then (Some StoreUnavailable, db)
      else (None, filter (\<lambda>r. \<not> row_id r \<noteq> []) db))"

definition stored :: "nat \<Rightarrow> insert_row \<Rightarrow> row" where
  "stored now p =
     \<lparr>row_id = ins_id p, row_label = ins_label p, row_url = ins_url p, row_icon = ins_icon p,
      image_url = ins_image_url p, row_description = ins_description p,
      sort_order = ins_sort_order p, updated_at = now\<rparr>"

definition store_insert :: "bool \<Rightarrow> nat \<Rightarrow> insert_row list \<Rightarrow> row list \<Rightarrow> store_error option \<times> row list" where
  "store_insert fails now payload db =
     (if fails then (Some StoreUnavailable, db)
      else if \<not> distinct (map row_id db @ map ins_id payload) then (Some ConstraintViolation, db)
      else (None, db @ map (stored now) payload))"

section \<open>The application component (App)\<close>

text \<open>
  The state cells of \<^verbatim>\<open>App\<close> (the search text apart, which no handler below reads), and
  the lines written with \<^verbatim>\<open>console.error\<close>. \<^verbatim>\<open>lastUpdated\<close> holds the instant whose
  \<^verbatim>\<open>toLocaleString()\<close> the source stores.
\<close>

record app =
  tiles :: "tile list"
  lastUpdated :: "nat option"
  isManaging :: bool
  isLoading :: bool
  isSaving :: bool
  error :: "string option"
  app_console :: "string list"

text \<open>
  What a handler meets outside the component while it runs: whether each kind of
  request fails, the clock of the database when it inserts, and the clock of the
  browser.
\<close>

record env =
  select_fails :: bool
  delete_fails :: bool
  insert_fails :: bool
  db_time :: nat
  client_time :: nat

definition DEFAULT_TILES :: "tile list" where
  "DEFAULT_TILES =
    [\<lparr>tile_id = ''clearcare'', label = ''ClearCare'', url = ''https://example.com/clearcare'',
      icon = ''HeartHandshake'', imageUrl = None, description = Some ''Care management system''\<rparr>,
     \<lparr>tile_id = ''email'', label = ''Email'', url = ''https://outlook.office.com'',
      icon = ''Mail'', imageUrl = None, description = Some ''Microsoft Outlook Web''\<rparr>,
     \<lparr>tile_id = ''teams'', label = ''Teams'', url = ''https://teams.microsoft.com'',
      icon = ''Users'', imageUrl = None, description = Some ''Communication & Meetings''\<rparr>,
     \<lparr>tile_id = ''sharepoint'', label = ''SharePoint'', url = ''https://example.com/sharepoint'',
      icon = ''Files'', imageUrl = None, description = Some ''Documents & Intranet''\<rparr>,
     \<lparr>tile_id = ''incident'', label = ''Incident Log'', url = ''https://example.com/incidents'',
      icon = ''AlertTriangle'', imageUrl = None, description = Some ''Safeguarding & Reporting''\<rparr>,
     \<lparr>tile_id = ''rota'', label = ''Staff Rota'', url = ''https://example.com/rota'',
      icon = ''Calendar'', imageUrl = None, description = Some ''Schedules & Shifts''\<rparr>,
     \<lparr>tile_id = ''policies'', label = ''Policies Folder'', url = ''https://example.com/policies'',
      icon = ''ShieldCheck'', imageUrl = None, description = Some ''Procedures & Compliance''\<rparr>,
     \<lparr>tile_id = ''ciw'', label = ''CIW / Regulations'', url = ''https://careinspectorate.wales'',
      icon = ''BookOpen'', imageUrl = None, description = Some ''Reference Area''\<rparr>]"

text \<open>
  \<^verbatim>\<open>v || null\<close> and \<^verbatim>\<open>v || undefined\<close> on an optional string: the string when it is not
  empty, nothing otherwise.
\<close>

definition or_nothing :: "string option \<Rightarrow> string option" where
  "or_nothing v = (case v of None \<Rightarrow> None | Some x \<Rightarrow> if x = [] then None else Some x)"

text \<open>The two field mappings: a tile and its index to the inserted object, a row to a tile.\<close>

definition tilesToInsert :: "tile list \<Rightarrow> insert_row list" where
  "tilesToInsert ts =
     map (\<lambda>(index, tile).
            \<lparr>ins_id = tile_id tile, ins_label = label tile, ins_url = url tile,
             ins_icon = icon tile, ins_image_url = or_nothing (imageUrl tile),
             ins_description = or_nothing (description tile), ins_sort_order = int index\<rparr>)
         (enumerate 0 ts)"

definition mappedTiles :: "row list \<Rightarrow> tile list" where
  "mappedTiles data =
     map (\<lambda>row. \<lparr>tile_id = row_id row, label = row_label row, url = row_url row,
                 icon = row_icon row, imageUrl = or_nothing (image_url row),
                 description = or_nothing (row_description row)\<rparr>) data"

text \<open>
  What a tile is after a trip through the table: both mappings pass the two optional
  fields through \<open>or_nothing\<close>, so an empty string comes back as \<^verbatim>\<open>undefined\<close>.
\<close>

definition stored_form :: "tile \<Rightarrow> tile" where
  "stored_form t = t\<lparr>imageUrl := or_nothing (imageUrl t), description := or_nothing (description t)\<rparr>"

text \<open>
  \<^verbatim>\<open>seedDefaultTiles\<close>: inserts the default tiles; whether the insert fails or not, the
  tiles of the component become the default tiles, and a failure is written to the
  console only.
\<close>

definition seedDefaultTiles :: "env \<Rightarrow> app \<times> row list \<Rightarrow> app \<times> row list" where
  "seedDefaultTiles e = (\<lambda>(st, db).
     case store_insert (insert_fails e) (db_time e) (tilesToInsert DEFAULT_TILES) db of
       (Some insertError, db1) \<Rightarrow>
         (st\<lparr>tiles := DEFAULT_TILES,
             app_console := app_console st @ [''Error seeding defaults:'']\<rparr>, db1)
     | (None, db1) \<Rightarrow> (st\<lparr>tiles := DEFAULT_TILES\<rparr>, db1))"

text \<open>
  \<^verbatim>\<open>fetchTiles\<close>. The latest \<^verbatim>\<open>updated_at\<close> is found by \<^verbatim>\<open>reduce\<close> from \<^verbatim>\<open>new Date(0)\<close>.
\<close>

definition fetchTiles :: "env \<Rightarrow> app \<times> row list \<Rightarrow> app \<times> row list" where
  "fetchTiles e = (\<lambda>(st, db).
     let st1 = st\<lparr>isLoading := True, error := None\<rparr> in
     case store_select (select_fails e) db of
       Inl fetchError \<Rightarrow>
         (st1\<lparr>app_console := app_console st1 @ [''Error fetching tiles:''],
              error := Some ''Failed to load links. Please refresh the page.'',
              tiles := DEFAULT_TILES, isLoading := False\<rparr>, db)
     | Inr data \<Rightarrow>
         if length data > 0 then
           let st2 = st1\<lparr>tiles := mappedTiles data\<rparr>;
               latestUpdate = foldl (\<lambda>latest row. if updated_at row > latest then updated_at row else latest) 0 data;
               st3 = (if latestUpdate > 0 then st2\<lparr>lastUpdated := Some latestUpdate\<rparr> else st2)
           in (st3\<lparr>isLoading := False\<rparr>, db)
         else
           let (st2, db2) = seedDefaultTiles e (st1, db)
           in (st2\<lparr>isLoading := False\<rparr>, db2))"

text \<open>
  \<^verbatim>\<open>handleSave\<close>: delete, then insert the new tiles with their indices; an error of
  either request is thrown to the \<^verbatim>\<open>catch\<close>, which sets the error message.
  \<open>save_failed\<close> is that \<^verbatim>\<open>catch\<close> block followed by the \<^verbatim>\<open>finally\<close> block.
\<close>

definition save_failed :: "app \<Rightarrow> app" where
  "save_failed st =
     st\<lparr>app_console := app_console st @ [''Error saving tiles:''],
        error := Some ''Failed to save changes. Please try again.'', isSaving := False\<rparr>"

definition handleSave :: "env \<Rightarrow> tile list \<Rightarrow> app \<times> row list \<Rightarrow> app \<times> row list" where
  "handleSave e newTiles = (\<lambda>(st, db).
     let st1 = st\<lparr>isSaving := True, error := None\<rparr> in
     case store_delete (delete_fails e) db of
       (Some deleteError, db1) \<Rightarrow> (save_failed st1, db1)
     | (None, db1) \<Rightarrow>
         (case store_insert (insert_fails e) (db_time e) (tilesToInsert newTiles) db1 of
            (Some insertError, db2) \<Rightarrow> (save_failed st1, db2)
          | (None, db2) \<Rightarrow>
              (st1\<lparr>tiles := newTiles, lastUpdated := Some (client_time e),
                   isManaging := False, isSaving := False\<rparr>, db2)))"

text \<open>
  \<^verbatim>\<open>handleReset\<close>: delete, then \<^verbatim>\<open>seedDefaultTiles\<close>, which catches the error of its
  insert itself; only an error of the delete reaches the \<^verbatim>\<open>catch\<close> of \<^verbatim>\<open>handleReset\<close>.
\<close>

definition handleReset :: "env \<Rightarrow> app \<times> row list \<Rightarrow> app \<times> row list" where
  "handleReset e = (\<lambda>(st, db).
     let st1 = st\<lparr>isSaving := True, error := None\<rparr> in
     case store_delete (delete_fails e) db of
       (Some deleteError, db1) \<Rightarrow>
         (st1\<lparr>app_console := app_console st1 @ [''Error resetting:''],
              error := Some ''Failed to reset. Please try again.'', isSaving := False\<rparr>, db1)
     | (None, db1) \<Rightarrow>
         let (st2, db2) = seedDefaultTiles e (st1, db1)
         in (st2\<lparr>lastUpdated := None, isManaging := False, isSaving := False\<rparr>, db2))"

text \<open>The button \<^verbatim>\<open>Dismiss\<close> of the error banner.\<close>

definition dismissError :: "app \<Rightarrow> app" where
  "dismissError st = st\<lparr>error := None\<rparr>"

section \<open>Sample inputs\<close>

text \<open>
  Inputs for the examples: a store and a network that work, a working copy of two
  tiles, the component while the editor is open, and the component as \<^verbatim>\<open>useState\<close>
  initialises it.
\<close>

definition env_ok :: env where
  "env_ok = \<lparr>select_fails = False, delete_fails = False, insert_fails = False,
             db_time = 1700000000100, client_time = 1700000000200\<rparr>"

definition two_tiles :: "tile list" where
  "two_tiles =
    [\<lparr>tile_id = ''email'', label = ''Email'', url = ''https://outlook.office.com'', icon = ''Mail'',
      imageUrl = Some ''https://cdn.example/email-1700000000000.png'', description = None\<rparr>,
     \<lparr>tile_id = ''custom-1700000000000'', label = ''New App'', url = [], icon = ''Globe'',
      imageUrl = None, description = Some ''Description here''\<rparr>]"

definition app_editing :: app where
  "app_editing = \<lparr>tiles = two_tiles, lastUpdated = Some 1690000000000, isManaging = True,
                  isLoading = False, isSaving = False, error = None, app_console = []\<rparr>"

definition app_start :: app where
  "app_start = \<lparr>tiles = [], lastUpdated = None, isManaging = False,
                isLoading = True, isSaving = False, error = None, app_console = []\<rparr>"

section \<open>Properties of the reorder\<close>

lemma splice_take_one:
  assumes "i < length xs"
  shows "splice i 1 [] xs = ([xs ! i], take i xs @ drop (Suc i) xs)"
proof -
  have "take 1 (drop i xs) = [xs ! i]"
    using assms by (simp add: Cons_nth_drop_Suc [symmetric])
  moreover have "min 1 (length xs - i) = 1"
    using assms by simp
  ultimately show ?thesis
    using assms by (simp add: splice_def Let_def)
qed

lemma splice_put_one:
  assumes "j \<le> length xs"
  shows "snd (splice j 0 [x] xs) = take j xs @ x # drop j xs"
  using assms by (simp add: splice_def Let_def)

lemma insert_at_props:
  assumes "j \<le> length rest"
  shows "(take j rest @ x # drop j rest) ! j = x"
    and "take j (take j rest @ x # drop j rest) @ drop (Suc j) (take j rest @ x # drop j rest)
         = rest"
    and "mset (take j rest @ x # drop j rest) = add_mset x (mset rest)"
proof -
  have len: "length (take j rest) = j"
    using assms by simp
  show "(take j rest @ x # drop j rest) ! j = x"
    using len by (metis nth_append_length)
  have "take j (take j rest @ x # drop j rest) = take j rest"
    using len by simp
  moreover have "drop (Suc j) (take j rest @ x # drop j rest) = drop j rest"
    using len by simp
  ultimately show "take j (take j rest @ x # drop j rest)
      @ drop (Suc j) (take j rest @ x # drop j rest) = rest"
    by simp
  have "mset (take j rest) + mset (drop j rest) = mset rest"
    by (metis append_take_drop_id mset_append)
  then show "mset (take j rest @ x # drop j rest) = add_mset x (mset rest)"
    by simp
qed

lemma handleDrop_tiles:
  assumes "draggedIndex s = Some i" and "i < length (lm_tiles s)"
    and "j < length (lm_tiles s)" and "i \<noteq> j"
    and "rest = take i (lm_tiles s) @ drop (Suc i) (lm_tiles s)"
  shows "lm_tiles (handleDrop j s) = take j rest @ lm_tiles s ! i # drop j rest"
proof -
  have len: "j \<le> length rest"
    using assms by simp
  have one: "splice i 1 [] (lm_tiles s) = ([lm_tiles s ! i], rest)"
    unfolding assms(5) using assms(2) by (rule splice_take_one)
  obtain u where two: "splice j 0 [lm_tiles s ! i] rest
      = (u, take j rest @ lm_tiles s ! i # drop j rest)"
    using splice_put_one [OF len, of "lm_tiles s ! i"] by (metis prod.collapse)
  show ?thesis
    using assms(1) assms(4) one two
    by (simp add: handleDrop_def first_of_def Let_def del: One_nat_def)
qed

text \<open>
  C1. For valid, distinct indices the drop is a permutation: same elements with the
  same multiplicities, same length, the element that was at the dragged index is at
  the drop index, and the remaining elements keep their order (deleting the moved
  element from the result gives the sequence that deleting it from the input gives).
  A sequence of tiles \<open>S\<close> is the array \<open>map Some S\<close>; the drop puts \<^verbatim>\<open>undefined\<close> into an
  array only if it held one already.
\<close>

theorem handleDrop_permutation:
  assumes "draggedIndex s = Some i" and "i < length (lm_tiles s)"
    and "j < length (lm_tiles s)" and "i \<noteq> j"
  shows "mset (lm_tiles (handleDrop j s)) = mset (lm_tiles s)
    \<and> length (lm_tiles (handleDrop j s)) = length (lm_tiles s)
    \<and> lm_tiles (handleDrop j s) ! j = lm_tiles s ! i
    \<and> take j (lm_tiles (handleDrop j s)) @ drop (Suc j) (lm_tiles (handleDrop j s))
        = take i (lm_tiles s) @ drop (Suc i) (lm_tiles s)
    \<and> (None \<in> set (lm_tiles (handleDrop j s))) = (None \<in> set (lm_tiles s))"
proof -
  define S where "S = lm_tiles s"
  define rest where "rest = take i S @ drop (Suc i) S"
  define R where "R = take j rest @ S ! i # drop j rest"
  have tiles: "lm_tiles (handleDrop j s) = R"
    using assms handleDrop_tiles [of s i j rest] by (simp add: S_def rest_def R_def)
  have len: "j \<le> length rest"
    using assms by (simp add: rest_def S_def)
  have S: "S = take i S @ S ! i # drop (Suc i) S"
    using assms(2) unfolding S_def by (rule id_take_nth_drop)
  have "mset S = add_mset (S ! i) (mset rest)"
    by (subst S) (simp add: rest_def)
  then have m: "mset R = mset S"
    using insert_at_props(3) [OF len, of "S ! i"] by (simp add: R_def)
  from m have l: "length R = length S"
    by (rule mset_eq_length)
  have n: "R ! j = S ! i"
    using insert_at_props(1) [OF len, of "S ! i"] by (simp add: R_def)
  have d: "take j R @ drop (Suc j) R = take i S @ drop (Suc i) S"
    using insert_at_props(2) [OF len, of "S ! i"] by (simp add: R_def rest_def)
  from m have u: "(None \<in> set R) = (None \<in> set S)"
    by (metis mset_eq_setD)
  show ?thesis
    unfolding tiles using m l n d u by (simp add: S_def)
qed

theorem handleDrop_permutation_witness:
  "mset (lm_tiles (handleDrop 2 (handleDragStart 0
      \<lparr>lm_tiles = [Some (10::nat), Some 20, Some 30], uploadingId = None, draggedIndex = None,
       dragOverIndex = None, alerts = [], console_errors = [], pending_uploads = []\<rparr>)))
    = mset [Some 10, Some 20, Some 30]
   \<and> lm_tiles (handleDrop 2 (handleDragStart 0
      \<lparr>lm_tiles = [Some (10::nat), Some 20, Some 30], uploadingId = None, draggedIndex = None,
       dragOverIndex = None, alerts = [], console_errors = [], pending_uploads = []\<rparr>))
    = [Some 20, Some 30, Some 10]"
  using handleDrop_permutation [of "handleDragStart 0
      \<lparr>lm_tiles = [Some (10::nat), Some 20, Some 30], uploadingId = None, draggedIndex = None,
       dragOverIndex = None, alerts = [], console_errors = [], pending_uploads = []\<rparr>" 0 2]
  by (simp add: handleDragStart_def handleDrop_def splice_def first_of_def)

section \<open>Properties of the reorder guard\<close>

text \<open>
  C8 (as amended). A drop is a no-op, returning the sequence unchanged and resetting the
  two drag indices, when no drag is in progress or the tile is dropped on its own
  index. That is the only guard.
\<close>

theorem handleDrop_same_index:
  assumes "draggedIndex s = None \<or> draggedIndex s = Some j"
  shows "handleDrop j s = s\<lparr>draggedIndex := None, dragOverIndex := None\<rparr>
    \<and> lm_tiles (handleDrop j s) = lm_tiles s"
  using assms by (auto simp: handleDrop_def)

theorem handleDrop_same_index_witness:
  "lm_tiles (handleDrop 1 (handleDragStart 1
      \<lparr>lm_tiles = [Some (10::nat), Some 20, Some 30], uploadingId = None, draggedIndex = None,
       dragOverIndex = None, alerts = [], console_errors = [], pending_uploads = []\<rparr>))
    = [Some 10, Some 20, Some 30]"
  using handleDrop_same_index [of "handleDragStart 1
      \<lparr>lm_tiles = [Some (10::nat), Some 20, Some 30], uploadingId = None, draggedIndex = None,
       dragOverIndex = None, alerts = [], console_errors = [], pending_uploads = []\<rparr>" 1]
  by (simp add: handleDragStart_def)

text \<open>
  C8 as stated fails: the indices are not compared with the length. With a valid dragged
  index and a drop index past the end, the tile goes to the end; with a dragged index
  past the end, \<^verbatim>\<open>undefined\<close> is inserted at the drop index.
\<close>

theorem handleDrop_out_of_bounds_counterexample:
  "lm_tiles (handleDrop 5
      \<lparr>lm_tiles = [Some (10::nat), Some 20, Some 30], uploadingId = None, draggedIndex = Some 0,
       dragOverIndex = None, alerts = [], console_errors = [], pending_uploads = []\<rparr>)
     = [Some 20, Some 30, Some 10]
   \<and> lm_tiles (handleDrop 0
      \<lparr>lm_tiles = [Some (10::nat), Some 20, Some 30], uploadingId = None, draggedIndex = Some 7,
       dragOverIndex = None, alerts = [], console_errors = [], pending_uploads = []\<rparr>)
     = [None, Some 10, Some 20, Some 30]
   \<and> lm_tiles (handleDrop 5
      \<lparr>lm_tiles = [Some (10::nat), Some 20, Some 30], uploadingId = None, draggedIndex = Some 0,
       dragOverIndex = None, alerts = [], console_errors = [], pending_uploads = []\<rparr>)
     \<noteq> [Some 10, Some 20, Some 30]"
  by (simp add: handleDrop_def splice_def first_of_def)

section \<open>Generated ids\<close>

lemma digit_value_digit: "d < 10 \<Longrightarrow> digit_value (''0123456789'' ! d) = d"
proof -
  assume "d < 10"
  then have "d = 0 \<or> d = 1 \<or> d = 2 \<or> d = 3 \<or> d = 4 \<or> d = 5 \<or> d = 6 \<or> d = 7 \<or> d = 8 \<or> d = 9"
    by arith
  then show ?thesis
    by (elim disjE) (simp_all add: digit_value_def)
qed

lemma nat_of_string_of_nat: "nat_of_string (string_of_nat n) = n"
proof (induction n rule: string_of_nat.induct)
  case (1 n)
  show ?case
  proof (cases "n < 10")
    case True
    then show ?thesis
      by (subst string_of_nat.simps) (simp add: nat_of_string_def digit_value_digit)
  next
    case False
    then have "nat_of_string (string_of_nat (n div 10)) = n div 10"
      using 1 by simp
    then show ?thesis
      using False
      by (subst string_of_nat.simps) (simp add: nat_of_string_def digit_value_digit)
  qed
qed

lemma custom_id_inj: "custom_id a = custom_id b \<Longrightarrow> a = b"
  by (metis custom_id_def same_append_eq nat_of_string_of_nat)

lemma ids_handleAddTile:
  "map tile_id (lm_tiles (handleAddTile now s)) = map tile_id (lm_tiles s) @ [custom_id now]"
  by (simp add: handleAddTile_def Let_def)

lemma ids_addTiles:
  "map tile_id (lm_tiles (addTiles ts s)) = map tile_id (lm_tiles s) @ map custom_id ts"
  by (induction ts arbitrary: s) (simp_all add: ids_handleAddTile)

text \<open>
  C3 (as amended). From a working copy with distinct ids, the ids after a run of
  \<^verbatim>\<open>handleAddTile\<close> calls are distinct exactly when the clock readings of the calls are
  pairwise different and none of them gives an id that the working copy held already.
\<close>

theorem addTiles_distinct_ids:
  assumes "distinct (map tile_id (lm_tiles s))"
  shows "distinct (map tile_id (lm_tiles (addTiles ts s)))
     \<longleftrightarrow> distinct ts \<and> (\<forall>t \<in> set ts. custom_id t \<notin> set (map tile_id (lm_tiles s)))"
proof -
  have "inj_on custom_id (set ts)"
    by (rule inj_onI) (rule custom_id_inj)
  then have "distinct (map custom_id ts) = distinct ts"
    by (simp add: distinct_map)
  then have "distinct (map tile_id (lm_tiles s) @ map custom_id ts)
      \<longleftrightarrow> distinct ts \<and> set (map tile_id (lm_tiles s)) \<inter> custom_id ` set ts = {}"
    using assms by simp
  also have "set (map tile_id (lm_tiles s)) \<inter> custom_id ` set ts = {}
      \<longleftrightarrow> (\<forall>t \<in> set ts. custom_id t \<notin> set (map tile_id (lm_tiles s)))"
    by blast
  finally show ?thesis
    by (simp only: ids_addTiles)
qed

theorem addTiles_distinct_ids_witness:
  "distinct (map tile_id (lm_tiles (addTiles [1700000000000, 1700000000001]
      \<lparr>lm_tiles = [\<lparr>tile_id = ''email'', label = ''Email'', url = ''https://outlook.office.com'',
          icon = ''Mail'', imageUrl = None, description = None\<rparr>], uploadingId = None, draggedIndex = None,
       dragOverIndex = None, alerts = [], console_errors = [], pending_uploads = []\<rparr>)))"
  using addTiles_distinct_ids [of "\<lparr>lm_tiles = [\<lparr>tile_id = ''email'', label = ''Email'', url = ''https://outlook.office.com'',
          icon = ''Mail'', imageUrl = None, description = None\<rparr>], uploadingId = None, draggedIndex = None,
       dragOverIndex = None, alerts = [], console_errors = [], pending_uploads = []\<rparr>" "[1700000000000, 1700000000001]"]
  by (simp add: custom_id_def)

text \<open>
  C3 as stated fails: two calls that read the same millisecond give the same id.
\<close>

theorem addTiles_same_clock_counterexample:
  "distinct (map tile_id (lm_tiles
      \<lparr>lm_tiles = [] :: tile list, uploadingId = None, draggedIndex = None,
       dragOverIndex = None, alerts = [], console_errors = [], pending_uploads = []\<rparr>))
   \<and> \<not> distinct (map tile_id (lm_tiles (addTiles [1700000000000, 1700000000000]
      \<lparr>lm_tiles = [], uploadingId = None, draggedIndex = None,
       dragOverIndex = None, alerts = [], console_errors = [], pending_uploads = []\<rparr>)))"
  by (simp add: handleAddTile_def)

section \<open>Save and fetch\<close>

lemma or_nothing_idem: "or_nothing (or_nothing v) = or_nothing v"
  by (simp add: or_nothing_def split: option.splits)

lemma map_snd_enumerate_comp: "map (f \<circ> snd) (enumerate n xs) = map f xs"
  by (simp only: map_map [symmetric] map_snd_enumerate)

lemma map_fst_enumerate_comp: "map (f \<circ> fst) (enumerate n xs) = map f [n..<n + length xs]"
  by (simp only: map_map [symmetric] map_fst_enumerate)

lemma sort_orders_tilesToInsert:
  "map ins_sort_order (tilesToInsert ts) = map int [0..<length ts]"
proof -
  have "map ins_sort_order (tilesToInsert ts) = map (int \<circ> fst) (enumerate 0 ts)"
    by (simp add: tilesToInsert_def case_prod_unfold comp_def)
  then show ?thesis
    by (simp only: map_fst_enumerate_comp add_0)
qed

lemma ids_tilesToInsert: "map ins_id (tilesToInsert ts) = map tile_id ts"
proof -
  have "map ins_id (tilesToInsert ts) = map (tile_id \<circ> snd) (enumerate 0 ts)"
    by (simp add: tilesToInsert_def case_prod_unfold comp_def)
  then show ?thesis
    by (simp only: map_snd_enumerate_comp)
qed

lemma mappedTiles_stored:
  "mappedTiles (map (stored now) (tilesToInsert ts)) = map stored_form ts"
proof -
  have "mappedTiles (map (stored now) (tilesToInsert ts)) = map (stored_form \<circ> snd) (enumerate 0 ts)"
    by (simp add: mappedTiles_def tilesToInsert_def stored_def stored_form_def case_prod_unfold
        comp_def or_nothing_idem)
  then show ?thesis
    by (simp only: map_snd_enumerate_comp)
qed

lemma sort_order_stored: "map sort_order (map (stored now) ps) = map ins_sort_order ps"
  by (simp add: stored_def comp_def)

lemma sorted_map_int_upt: "sorted (map int [0..<n])"
  by (simp add: sorted_map sorted_wrt_iff_nth_less)

lemma select_stored:
  "store_select False (map (stored now) (tilesToInsert ts)) = Inr (map (stored now) (tilesToInsert ts))"
proof -
  have "sorted (map sort_order (map (stored now) (tilesToInsert ts)))"
    by (simp only: sort_order_stored sort_orders_tilesToInsert sorted_map_int_upt)
  then show ?thesis
    by (simp add: store_select_def sort_key_id_if_sorted del: map_map)
qed

lemma store_delete_all:
  assumes "\<forall>r \<in> set db. row_id r \<noteq> []"
  shows "store_delete False db = (None, [])"
  using assms by (simp add: store_delete_def filter_empty_conv)

lemma store_insert_empty:
  "store_insert fails now ps [] =
     (if fails then (Some StoreUnavailable, [])
      else if \<not> distinct (map ins_id ps) then (Some ConstraintViolation, [])
      else (None, map (stored now) ps))"
  by (simp add: store_insert_def)

lemma handleSave_ok:
  assumes "\<forall>r \<in> set db. row_id r \<noteq> []"
    and "error (fst (handleSave e W (st, db))) = None"
  shows "snd (handleSave e W (st, db)) = map (stored (db_time e)) (tilesToInsert W)"
    and "tiles (fst (handleSave e W (st, db))) = W"
    and "lastUpdated (fst (handleSave e W (st, db))) = Some (client_time e)"
proof -
  have d: "\<not> delete_fails e"
    using assms(2) by (auto simp: handleSave_def store_delete_def save_failed_def Let_def)
  then have del: "store_delete (delete_fails e) db = (None, [])"
    using assms(1) by (simp add: store_delete_all)
  have ins: "store_insert (insert_fails e) (db_time e) (tilesToInsert W) []
      = (None, map (stored (db_time e)) (tilesToInsert W))"
    using assms(2) del
    by (auto simp: handleSave_def save_failed_def Let_def store_insert_empty split: if_splits)
  show "snd (handleSave e W (st, db)) = map (stored (db_time e)) (tilesToInsert W)"
    and "tiles (fst (handleSave e W (st, db))) = W"
    and "lastUpdated (fst (handleSave e W (st, db))) = Some (client_time e)"
    using del ins by (simp_all add: handleSave_def Let_def)
qed

lemma handleSave_success:
  assumes "\<forall>r \<in> set db. row_id r \<noteq> []" and "\<not> delete_fails e" and "\<not> insert_fails e"
    and "distinct (map tile_id W)"
  shows "handleSave e W (st, db) =
     (st\<lparr>isSaving := True, error := None, tiles := W, lastUpdated := Some (client_time e),
         isManaging := False, isSaving := False\<rparr>,
      map (stored (db_time e)) (tilesToInsert W))"
  using assms
  by (simp add: handleSave_def Let_def store_delete_all store_insert_empty ids_tilesToInsert)

lemma fetchTiles_nonempty:
  assumes "store_select (select_fails e) db = Inr data" and "data \<noteq> []"
  shows "tiles (fst (fetchTiles e (st, db))) = mappedTiles data"
    and "snd (fetchTiles e (st, db)) = db"
    and "error (fst (fetchTiles e (st, db))) = None"
  using assms by (simp_all add: fetchTiles_def Let_def)

lemma two_rows_ids: "\<forall>r \<in> set (map (stored 1690000000000) (tilesToInsert two_tiles)). row_id r \<noteq> []"
  by (simp add: two_tiles_def tilesToInsert_def stored_def)

lemma select_any_order:
  assumes "mset db' = mset (map (stored now) (tilesToInsert ts))"
  shows "store_select False db' = Inr (map (stored now) (tilesToInsert ts))"
proof -
  let ?db = "map (stored now) (tilesToInsert ts)"
  have keys: "map sort_order ?db = map int [0..<length ts]"
    by (simp only: sort_order_stored sort_orders_tilesToInsert)
  have "distinct (map int [0..<length ts])"
    by (simp add: distinct_map)
  then have "inj_on sort_order (set ?db)"
    using keys by (metis distinct_map)
  moreover have "set db' = set ?db"
    using assms by (rule mset_eq_setD)
  ultimately have inj: "inj_on sort_order (set db')"
    by simp
  have "sorted (map sort_order ?db)"
    by (simp only: keys sorted_map_int_upt)
  then have "sort_key sort_order db' = ?db"
    using assms inj by (metis sort_key_inj_key_eq)
  then show ?thesis
    by (simp add: store_select_def)
qed

lemma fetchTiles_empty_table: "tiles (fst (fetchTiles e (st, []))) = DEFAULT_TILES"
  by (simp add: fetchTiles_def seedDefaultTiles_def store_select_def store_insert_def Let_def)

lemma or_nothing_fixed: "or_nothing v = v \<longleftrightarrow> v \<noteq> Some []"
  by (cases v) (simp_all add: or_nothing_def)

lemma stored_form_fixed:
  "stored_form t = t \<longleftrightarrow> imageUrl t \<noteq> Some [] \<and> description t \<noteq> Some []"
  by (cases t) (simp add: stored_form_def or_nothing_fixed)

lemma stored_form_all_fixed:
  "map stored_form W = W \<longleftrightarrow> (\<forall>t \<in> set W. imageUrl t \<noteq> Some [] \<and> description t \<noteq> Some [])"
proof -
  have "map stored_form W = W \<longleftrightarrow> map stored_form W = map (\<lambda>t. t) W"
    by simp
  also have "\<dots> \<longleftrightarrow> (\<forall>t \<in> set W. stored_form t = t)"
    by (rule map_eq_conv)
  finally show ?thesis
    by (simp only: stored_form_fixed)
qed

text \<open>
  C2 (as amended). On a table that holds no row with an empty id, a save of the working
  copy \<open>W\<close> that succeeds adopts \<open>W\<close>. Whatever the order in which the table keeps the
  saved rows, the select that follows returns them ascending in \<open>sort_order\<close>, and mapped
  to tiles they are the tiles of \<open>W\<close> in the order of \<open>W\<close>, each in its stored form: same
  id, label, url and icon, and the optional fields with an empty string turned into
  \<^verbatim>\<open>undefined\<close>. For a non-empty \<open>W\<close> that list is what \<^verbatim>\<open>fetchTiles\<close> adopts, from any
  state of the component, and the table stays as it is; for the empty \<open>W\<close> \<^verbatim>\<open>fetchTiles\<close>
  finds no row and adopts the default tiles. The list is \<open>W\<close> itself if and only if no
  tile of \<open>W\<close> has an empty string in an optional field.
\<close>

theorem save_then_fetch:
  assumes "\<forall>r \<in> set db. row_id r \<noteq> []"
    and "error (fst (handleSave e W (st, db))) = None"
    and "mset db' = mset (snd (handleSave e W (st, db)))"
  shows "tiles (fst (handleSave e W (st, db))) = W
    \<and> store_select False db' = Inr (map (stored (db_time e)) (tilesToInsert W))
    \<and> mappedTiles (map (stored (db_time e)) (tilesToInsert W)) = map stored_form W
    \<and> (W \<noteq> [] \<and> \<not> select_fails e2 \<longrightarrow>
          tiles (fst (fetchTiles e2 (st2, db'))) = map stored_form W
          \<and> snd (fetchTiles e2 (st2, db')) = db')
    \<and> (W = [] \<longrightarrow> tiles (fst (fetchTiles e2 (st2, db'))) = DEFAULT_TILES)
    \<and> (map stored_form W = W
          \<longleftrightarrow> (\<forall>t \<in> set W. imageUrl t \<noteq> Some [] \<and> description t \<noteq> Some []))"
proof -
  let ?db = "map (stored (db_time e)) (tilesToInsert W)"
  have db: "snd (handleSave e W (st, db)) = ?db"
    using assms(1,2) by (rule handleSave_ok)
  have perm: "mset db' = mset ?db"
    using assms(3) db by simp
  have sel: "store_select False db' = Inr ?db"
    using perm by (rule select_any_order)
  have m: "mappedTiles ?db = map stored_form W"
    by (rule mappedTiles_stored)
  have f: "tiles (fst (fetchTiles e2 (st2, db'))) = map stored_form W
      \<and> snd (fetchTiles e2 (st2, db')) = db'"
    if "W \<noteq> []" and "\<not> select_fails e2"
  proof -
    have ne: "?db \<noteq> []"
      using that(1) by (simp add: tilesToInsert_def enumerate_eq_zip)
    have "store_select (select_fails e2) db' = Inr ?db"
      using sel that(2) by simp
    then show ?thesis
      using ne m by (simp add: fetchTiles_nonempty)
  qed
  have g: "tiles (fst (fetchTiles e2 (st2, db'))) = DEFAULT_TILES" if "W = []"
  proof -
    have "db' = []"
      using perm that by (simp add: tilesToInsert_def)
    then show ?thesis
      by (simp only: fetchTiles_empty_table)
  qed
  show ?thesis
    using handleSave_ok(2) [OF assms(1,2)] sel m f g stored_form_all_fixed by auto
qed

theorem save_then_fetch_witness:
  "tiles (fst (fetchTiles env_ok
      (app_start, rev (snd (handleSave env_ok (rev two_tiles)
         (app_editing, map (stored 1690000000000) (tilesToInsert two_tiles)))))))
   = rev two_tiles"
proof -
  have h: "error (fst (handleSave env_ok (rev two_tiles)
       (app_editing, map (stored 1690000000000) (tilesToInsert two_tiles)))) = None"
    using two_rows_ids
    by (subst handleSave_success) (simp_all add: env_ok_def two_tiles_def)
  have p: "mset (rev (snd (handleSave env_ok (rev two_tiles)
         (app_editing, map (stored 1690000000000) (tilesToInsert two_tiles)))))
      = mset (snd (handleSave env_ok (rev two_tiles)
         (app_editing, map (stored 1690000000000) (tilesToInsert two_tiles))))"
    by simp
  have n: "rev two_tiles \<noteq> [] \<and> \<not> select_fails env_ok"
    by (simp add: two_tiles_def env_ok_def)
  have s: "\<forall>t \<in> set (rev two_tiles). imageUrl t \<noteq> Some [] \<and> description t \<noteq> Some []"
    by (simp add: two_tiles_def)
  show ?thesis
    using save_then_fetch [OF two_rows_ids h p, of env_ok app_start] n s by metis
qed

text \<open>
  C2 as stated fails twice. \<^verbatim>\<open>handleRemoveImage\<close> leaves the empty string in \<^verbatim>\<open>imageUrl\<close>;
  the save writes \<^verbatim>\<open>NULL\<close> for it and the fetch reads \<^verbatim>\<open>undefined\<close>, so the fetched tile
  is not the tile that was saved. And after a save of the empty working copy,
  \<^verbatim>\<open>fetchTiles\<close> finds no row, seeds, and adopts the default tiles.
\<close>

theorem save_then_fetch_counterexample:
  "error (fst (handleSave env_ok
       [\<lparr>tile_id = ''email'', label = ''Email'', url = ''https://outlook.office.com'',
         icon = ''Mail'', imageUrl = Some [], description = None\<rparr>] (app_editing, []))) = None
   \<and> tiles (fst (fetchTiles env_ok (handleSave env_ok
       [\<lparr>tile_id = ''email'', label = ''Email'', url = ''https://outlook.office.com'',
         icon = ''Mail'', imageUrl = Some [], description = None\<rparr>] (app_editing, []))))
     = [\<lparr>tile_id = ''email'', label = ''Email'', url = ''https://outlook.office.com'',
         icon = ''Mail'', imageUrl = None, description = None\<rparr>]
   \<and> tiles (fst (fetchTiles env_ok (handleSave env_ok
       [\<lparr>tile_id = ''email'', label = ''Email'', url = ''https://outlook.office.com'',
         icon = ''Mail'', imageUrl = Some [], description = None\<rparr>] (app_editing, []))))
     \<noteq> [\<lparr>tile_id = ''email'', label = ''Email'', url = ''https://outlook.office.com'',
         icon = ''Mail'', imageUrl = Some [], description = None\<rparr>]
   \<and> error (fst (handleSave env_ok [] (app_editing, []))) = None
   \<and> tiles (fst (fetchTiles env_ok (handleSave env_ok [] (app_editing, [])))) = DEFAULT_TILES
   \<and> tiles (fst (fetchTiles env_ok (handleSave env_ok [] (app_editing, [])))) \<noteq> []"
  by (simp add: handleSave_def fetchTiles_def seedDefaultTiles_def store_delete_def
      store_insert_def store_select_def
      env_ok_def tilesToInsert_def stored_def app_editing_def mappedTiles_def or_nothing_def
      DEFAULT_TILES_def)

text \<open>
  Why the table must hold no row with an empty id: \<^verbatim>\<open>neq('id', '')\<close> does not delete such
  a row, and it is fetched with the saved tiles.
\<close>

lemma delete_keeps_row_with_empty_id:
  "map row_id (snd (handleSave env_ok two_tiles
       (app_editing,
        [\<lparr>row_id = [], row_label = ''x'', row_url = [], row_icon = ''Globe'', image_url = None,
          row_description = None, sort_order = 0, updated_at = 1690000000000\<rparr>])))
   = [[], ''email'', ''custom-1700000000000'']"
  by (auto simp: handleSave_def store_delete_def store_insert_def env_ok_def two_tiles_def
      tilesToInsert_def stored_def app_editing_def)

section \<open>Seeding the default tiles\<close>

lemma distinct_default_ids: "distinct (map tile_id DEFAULT_TILES)"
  by (simp add: DEFAULT_TILES_def)

lemma default_stored_form: "map stored_form DEFAULT_TILES = DEFAULT_TILES"
  by (simp add: DEFAULT_TILES_def stored_form_def or_nothing_def)

lemma default_nonempty: "tilesToInsert DEFAULT_TILES \<noteq> []"
  by (simp add: DEFAULT_TILES_def tilesToInsert_def)

lemma select_empty:
  assumes "store_select fails db = Inr []"
  shows "\<not> fails" and "db = []"
proof -
  show "\<not> fails"
    using assms by (auto simp: store_select_def)
  then have "sort_key sort_order db = []"
    using assms by (simp add: store_select_def)
  then have "length db = 0"
    by (metis length_sort list.size(3))
  then show "db = []"
    by simp
qed

lemma seed_ok:
  assumes "\<not> insert_fails e"
  shows "seedDefaultTiles e (st, []) =
     (st\<lparr>tiles := DEFAULT_TILES\<rparr>, map (stored (db_time e)) (tilesToInsert DEFAULT_TILES))"
  using assms distinct_default_ids
  by (simp add: seedDefaultTiles_def store_insert_empty ids_tilesToInsert)

text \<open>
  C7 (as amended). When the select of \<^verbatim>\<open>fetchTiles\<close> returns no row, the component adopts
  the default tiles and sets no error message, whether the insert of the seeding
  succeeds or not. When it succeeds, the table holds one row for each default tile with
  its index as \<open>sort_order\<close>; whatever the order in which the table keeps these rows, the
  select returns them in the order of the default tiles, and the next \<^verbatim>\<open>fetchTiles\<close>,
  from any state of the component, adopts exactly the default tiles and leaves the table
  as it is. When the insert fails, the table stays empty, and the next \<^verbatim>\<open>fetchTiles\<close>
  adopts the default tiles again.
\<close>

theorem fetchTiles_seeds_defaults:
  assumes "store_select (select_fails e) db = Inr []"
  shows "tiles (fst (fetchTiles e (st, db))) = DEFAULT_TILES
    \<and> error (fst (fetchTiles e (st, db))) = None
    \<and> (\<not> insert_fails e \<longrightarrow>
         snd (fetchTiles e (st, db)) = map (stored (db_time e)) (tilesToInsert DEFAULT_TILES)
         \<and> map sort_order (snd (fetchTiles e (st, db))) = map int [0..<length DEFAULT_TILES]
         \<and> mappedTiles (snd (fetchTiles e (st, db))) = DEFAULT_TILES
         \<and> (mset db' = mset (snd (fetchTiles e (st, db))) \<and> \<not> select_fails e2 \<longrightarrow>
              store_select False db' = Inr (snd (fetchTiles e (st, db)))
              \<and> tiles (fst (fetchTiles e2 (st2, db'))) = DEFAULT_TILES
              \<and> error (fst (fetchTiles e2 (st2, db'))) = None
              \<and> snd (fetchTiles e2 (st2, db')) = db'))
    \<and> (insert_fails e \<longrightarrow>
         snd (fetchTiles e (st, db)) = []
         \<and> tiles (fst (fetchTiles e2 (st2, snd (fetchTiles e (st, db))))) = DEFAULT_TILES)"
proof -
  let ?db = "map (stored (db_time e)) (tilesToInsert DEFAULT_TILES)"
  have e: "\<not> select_fails e" and db: "db = []"
    using assms by (rule select_empty)+
  have t: "tiles (fst (fetchTiles e (st, db))) = DEFAULT_TILES"
    unfolding db by (rule fetchTiles_empty_table)
  have err: "error (fst (fetchTiles e (st, db))) = None"
    using e db
    by (simp add: fetchTiles_def seedDefaultTiles_def store_select_def store_insert_def Let_def)
  have ok: "snd (fetchTiles e (st, db)) = ?db" if "\<not> insert_fails e"
    using e db seed_ok [OF that] by (simp add: fetchTiles_def store_select_def Let_def)
  have m: "mappedTiles ?db = DEFAULT_TILES"
    by (simp only: mappedTiles_stored default_stored_form)
  have so: "map sort_order ?db = map int [0..<length DEFAULT_TILES]"
    by (simp only: sort_order_stored sort_orders_tilesToInsert)
  have ne: "?db \<noteq> []"
    using default_nonempty by simp
  have again: "store_select False db' = Inr ?db
      \<and> tiles (fst (fetchTiles e2 (st2, db'))) = DEFAULT_TILES
      \<and> error (fst (fetchTiles e2 (st2, db'))) = None
      \<and> snd (fetchTiles e2 (st2, db')) = db'"
    if "mset db' = mset ?db" and "\<not> select_fails e2"
  proof -
    have sel: "store_select False db' = Inr ?db"
      using that(1) by (rule select_any_order)
    then have "store_select (select_fails e2) db' = Inr ?db"
      using that(2) by simp
    then show ?thesis
      using sel ne m by (simp add: fetchTiles_nonempty)
  qed
  have bad: "snd (fetchTiles e (st, db)) = []" if "insert_fails e"
    using e db that
    by (simp add: fetchTiles_def seedDefaultTiles_def store_select_def store_insert_def Let_def)
  have bad2: "tiles (fst (fetchTiles e2 (st2, snd (fetchTiles e (st, db))))) = DEFAULT_TILES"
    if "insert_fails e"
    using bad [OF that] by (simp only: fetchTiles_empty_table)
  show ?thesis
    using t err ok m so again bad bad2 by (auto simp del: map_map)
qed

theorem fetchTiles_seeds_defaults_witness:
  "tiles (fst (fetchTiles env_ok (app_start, []))) = DEFAULT_TILES
   \<and> map sort_order (snd (fetchTiles env_ok (app_start, []))) = [0, 1, 2, 3, 4, 5, 6, 7]
   \<and> tiles (fst (fetchTiles env_ok (app_editing, rev (snd (fetchTiles env_ok (app_start, []))))))
      = DEFAULT_TILES"
proof -
  have h1: "store_select (select_fails env_ok) [] = Inr []"
    by (simp add: store_select_def env_ok_def)
  have h2: "\<not> insert_fails env_ok"
    by (simp add: env_ok_def)
  have h3: "mset (rev (snd (fetchTiles env_ok (app_start, []))))
      = mset (snd (fetchTiles env_ok (app_start, []))) \<and> \<not> select_fails env_ok"
    by (simp add: env_ok_def)
  have n: "map int [0..<length DEFAULT_TILES] = [0, 1, 2, 3, 4, 5, 6, 7]"
    by (simp add: DEFAULT_TILES_def upt_rec)
  have "tiles (fst (fetchTiles env_ok (app_start, []))) = DEFAULT_TILES"
    and "map sort_order (snd (fetchTiles env_ok (app_start, []))) = map int [0..<length DEFAULT_TILES]"
    and "tiles (fst (fetchTiles env_ok (app_editing, rev (snd (fetchTiles env_ok (app_start, []))))))
      = DEFAULT_TILES"
    using fetchTiles_seeds_defaults [OF h1, of app_start
        "rev (snd (fetchTiles env_ok (app_start, [])))" env_ok app_editing] h2 h3
    by blast+
  then show ?thesis
    by (simp only: n)
qed

text \<open>
  C7 as stated fails when the insert of the seeding fails: the component adopts the
  default tiles, but the table is not seeded, and the next select returns no row.
\<close>

theorem fetchTiles_seeding_fails_counterexample:
  "store_select (select_fails (env_ok\<lparr>insert_fails := True\<rparr>)) [] = Inr []
   \<and> tiles (fst (fetchTiles (env_ok\<lparr>insert_fails := True\<rparr>) (app_start, []))) = DEFAULT_TILES
   \<and> snd (fetchTiles (env_ok\<lparr>insert_fails := True\<rparr>) (app_start, [])) = []
   \<and> store_select False (snd (fetchTiles (env_ok\<lparr>insert_fails := True\<rparr>) (app_start, []))) = Inr []"
  by (simp add: fetchTiles_def seedDefaultTiles_def store_select_def store_insert_def env_ok_def
      app_start_def)

text \<open>
  C10. When the insert of \<^verbatim>\<open>seedDefaultTiles\<close> returns an error, the tiles of the component
  become the default tiles all the same, one line is written to the console, and the
  error message of the component is what it was.
\<close>

theorem seedDefaultTiles_failure_only_logged:
  assumes "fst (store_insert (insert_fails e) (db_time e) (tilesToInsert DEFAULT_TILES) db) \<noteq> None"
  shows "fst (seedDefaultTiles e (st, db))
       = st\<lparr>tiles := DEFAULT_TILES, app_console := app_console st @ [''Error seeding defaults:'']\<rparr>
    \<and> tiles (fst (seedDefaultTiles e (st, db))) = DEFAULT_TILES
    \<and> error (fst (seedDefaultTiles e (st, db))) = error st"
proof (cases "store_insert (insert_fails e) (db_time e) (tilesToInsert DEFAULT_TILES) db")
  case (Pair r db1)
  then obtain x where "r = Some x"
    using assms by auto
  then show ?thesis
    using Pair by (simp add: seedDefaultTiles_def)
qed

theorem seedDefaultTiles_failure_only_logged_witness:
  "tiles (fst (seedDefaultTiles (env_ok\<lparr>insert_fails := True\<rparr>) (app_editing, []))) = DEFAULT_TILES
   \<and> error (fst (seedDefaultTiles (env_ok\<lparr>insert_fails := True\<rparr>) (app_editing, []))) = None
   \<and> app_console (fst (seedDefaultTiles (env_ok\<lparr>insert_fails := True\<rparr>) (app_editing, [])))
      = [''Error seeding defaults:'']"
proof -
  have h: "fst (store_insert (insert_fails (env_ok\<lparr>insert_fails := True\<rparr>))
      (db_time (env_ok\<lparr>insert_fails := True\<rparr>)) (tilesToInsert DEFAULT_TILES) []) \<noteq> None"
    by (simp add: store_insert_def)
  show ?thesis
    using seedDefaultTiles_failure_only_logged [OF h, of app_editing]
    by (simp add: app_editing_def)
qed

section \<open>Failed saves and resets\<close>

text \<open>
  C6 (as amended). When the delete or the insert of \<^verbatim>\<open>handleSave\<close> returns an error, and
  when the delete of \<^verbatim>\<open>handleReset\<close> returns an error, the tiles, the last-updated value
  and the editor flag are what they were, the busy flag is off, and the error message is
  set; the button of the banner clears it.
\<close>

theorem failed_save_keeps_state:
  "(fst (store_delete (delete_fails e) db) \<noteq> None
      \<or> fst (store_insert (insert_fails e) (db_time e) (tilesToInsert W)
            (snd (store_delete (delete_fails e) db))) \<noteq> None \<longrightarrow>
      tiles (fst (handleSave e W (st, db))) = tiles st
      \<and> lastUpdated (fst (handleSave e W (st, db))) = lastUpdated st
      \<and> isManaging (fst (handleSave e W (st, db))) = isManaging st
      \<and> isSaving (fst (handleSave e W (st, db))) = False
      \<and> error (fst (handleSave e W (st, db))) = Some ''Failed to save changes. Please try again.''
      \<and> error (dismissError (fst (handleSave e W (st, db)))) = None)
   \<and> (fst (store_delete (delete_fails e) db) \<noteq> None \<longrightarrow>
      tiles (fst (handleReset e (st, db))) = tiles st
      \<and> lastUpdated (fst (handleReset e (st, db))) = lastUpdated st
      \<and> isManaging (fst (handleReset e (st, db))) = isManaging st
      \<and> isSaving (fst (handleReset e (st, db))) = False
      \<and> error (fst (handleReset e (st, db))) = Some ''Failed to reset. Please try again.''
      \<and> error (dismissError (fst (handleReset e (st, db)))) = None)"
proof -
  obtain r1 db1 where d: "store_delete (delete_fails e) db = (r1, db1)"
    by (cases "store_delete (delete_fails e) db")
  obtain r2 db2 where i: "store_insert (insert_fails e) (db_time e) (tilesToInsert W) db1 = (r2, db2)"
    by (cases "store_insert (insert_fails e) (db_time e) (tilesToInsert W) db1")
  show ?thesis
    using d i
    by (cases r1; cases r2)
      (simp_all add: handleSave_def handleReset_def save_failed_def dismissError_def Let_def)
qed

theorem failed_save_keeps_state_witness:
  "tiles (fst (handleSave (env_ok\<lparr>insert_fails := True\<rparr>) (rev two_tiles) (app_editing, []))) = two_tiles
   \<and> lastUpdated (fst (handleSave (env_ok\<lparr>insert_fails := True\<rparr>) (rev two_tiles) (app_editing, [])))
      = Some 1690000000000
   \<and> error (fst (handleSave (env_ok\<lparr>insert_fails := True\<rparr>) (rev two_tiles) (app_editing, [])))
      = Some ''Failed to save changes. Please try again.''
   \<and> tiles (fst (handleReset (env_ok\<lparr>delete_fails := True\<rparr>) (app_editing, []))) = two_tiles
   \<and> error (fst (handleReset (env_ok\<lparr>delete_fails := True\<rparr>) (app_editing, [])))
      = Some ''Failed to reset. Please try again.''"
proof -
  have h1: "fst (store_insert (insert_fails (env_ok\<lparr>insert_fails := True\<rparr>))
      (db_time (env_ok\<lparr>insert_fails := True\<rparr>)) (tilesToInsert (rev two_tiles))
      (snd (store_delete (delete_fails (env_ok\<lparr>insert_fails := True\<rparr>)) []))) \<noteq> None"
    by (simp add: store_insert_def)
  have h2: "fst (store_delete (delete_fails (env_ok\<lparr>delete_fails := True\<rparr>)) []) \<noteq> None"
    by (simp add: store_delete_def)
  show ?thesis
    using h1 h2
      failed_save_keeps_state [of "env_ok\<lparr>insert_fails := True\<rparr>" "[]" "rev two_tiles" app_editing]
      failed_save_keeps_state [of "env_ok\<lparr>delete_fails := True\<rparr>" "[]" "rev two_tiles" app_editing]
    by (simp add: app_editing_def)
qed

text \<open>
  C6 as stated fails for a reset whose insert returns an error: \<^verbatim>\<open>seedDefaultTiles\<close> catches
  it, so the tiles become the default tiles, the last-updated value is cleared and no
  error message is set.
\<close>

theorem failed_reset_insert_counterexample:
  "fst (store_insert (insert_fails (env_ok\<lparr>insert_fails := True\<rparr>))
      (db_time (env_ok\<lparr>insert_fails := True\<rparr>)) (tilesToInsert DEFAULT_TILES) []) = Some StoreUnavailable
   \<and> tiles (fst (handleReset (env_ok\<lparr>insert_fails := True\<rparr>) (app_editing, []))) = DEFAULT_TILES
   \<and> tiles app_editing \<noteq> DEFAULT_TILES
   \<and> lastUpdated app_editing = Some 1690000000000
   \<and> lastUpdated (fst (handleReset (env_ok\<lparr>insert_fails := True\<rparr>) (app_editing, []))) = None
   \<and> error (fst (handleReset (env_ok\<lparr>insert_fails := True\<rparr>) (app_editing, []))) = None"
  by (simp add: handleReset_def seedDefaultTiles_def store_delete_def store_insert_def env_ok_def
      app_editing_def two_tiles_def DEFAULT_TILES_def)

section \<open>Images\<close>

text \<open>
  C5. A file of more than 2 MiB is refused: the call only adds the alert; the tiles, the
  uploading marker and the pending uploads are unchanged. A file of at most 2 MiB (one
  of 1 MiB, say) sets the uploading marker without an alert, and when the upload
  succeeds every tile with that id has the public URL of the uploaded file as its
  \<^verbatim>\<open>imageUrl\<close>, the other tiles unchanged.
\<close>

theorem handleImageUpload_size_guard:
  "(file_size f > 2 * 1024 * 1024 \<longrightarrow>
      handleImageUpload getPublicUrl now i f outcome s
        = s\<lparr>alerts := alerts s @ [''Image is too large. Please use an image smaller than 2MB.'']\<rparr>
      \<and> lm_tiles (handleImageUpload getPublicUrl now i f outcome s) = lm_tiles s
      \<and> uploadingId (handleImageUpload getPublicUrl now i f outcome s) = uploadingId s
      \<and> pending_uploads (handleImageUpload getPublicUrl now i f outcome s) = pending_uploads s)
   \<and> (file_size f \<le> 2 * 1024 * 1024 \<longrightarrow>
      uploadingId (handleImageUpload_start now i f s) = Some i
      \<and> alerts (handleImageUpload_start now i f s) = alerts s
      \<and> lm_tiles (handleImageUpload getPublicUrl now i f StorageOk s)
         = map (\<lambda>t. if tile_id t = i then t\<lparr>imageUrl := Some (getPublicUrl (upload_name i now f))\<rparr> else t)
             (lm_tiles s)
      \<and> alerts (handleImageUpload getPublicUrl now i f StorageOk s) = alerts s)"
  by (simp add: handleImageUpload_def handleImageUpload_start_def handleImageUpload_settled_def
      handleUpdateTile_def)

theorem handleImageUpload_size_guard_witness:
  "lm_tiles (handleImageUpload (\<lambda>n. ''https://cdn.example/'' @ n) 1700000000000 ''email''
       \<lparr>file_size = 3 * 1024 * 1024, file_name = ''logo.png''\<rparr> StorageOk
       \<lparr>lm_tiles = [\<lparr>tile_id = ''email'', label = ''Email'', url = ''https://outlook.office.com'',
          icon = ''Mail'', imageUrl = None, description = None\<rparr>], uploadingId = None,
        draggedIndex = None, dragOverIndex = None, alerts = [], console_errors = [],
        pending_uploads = []\<rparr>)
    = [\<lparr>tile_id = ''email'', label = ''Email'', url = ''https://outlook.office.com'',
          icon = ''Mail'', imageUrl = None, description = None\<rparr>]
   \<and> lm_tiles (handleImageUpload (\<lambda>n. ''https://cdn.example/'' @ n) 1700000000000 ''email''
       \<lparr>file_size = 1024 * 1024, file_name = ''logo.png''\<rparr> StorageOk
       \<lparr>lm_tiles = [\<lparr>tile_id = ''email'', label = ''Email'', url = ''https://outlook.office.com'',
          icon = ''Mail'', imageUrl = None, description = None\<rparr>], uploadingId = None,
        draggedIndex = None, dragOverIndex = None, alerts = [], console_errors = [],
        pending_uploads = []\<rparr>)
    = [\<lparr>tile_id = ''email'', label = ''Email'', url = ''https://outlook.office.com'',
          icon = ''Mail'',
          imageUrl = Some ''https://cdn.example/email-1700000000000.png'',
          description = None\<rparr>]"
  using handleImageUpload_size_guard [of "\<lparr>file_size = 3 * 1024 * 1024, file_name = ''logo.png''\<rparr>"
      "\<lambda>n. ''https://cdn.example/'' @ n" 1700000000000 "''email''" StorageOk
      "\<lparr>lm_tiles = [\<lparr>tile_id = ''email'', label = ''Email'', url = ''https://outlook.office.com'',
          icon = ''Mail'', imageUrl = None, description = None\<rparr>], uploadingId = None,
        draggedIndex = None, dragOverIndex = None, alerts = [], console_errors = [],
        pending_uploads = []\<rparr>"]
    handleImageUpload_size_guard [of "\<lparr>file_size = 1024 * 1024, file_name = ''logo.png''\<rparr>"
      "\<lambda>n. ''https://cdn.example/'' @ n" 1700000000000 "''email''" StorageOk
      "\<lparr>lm_tiles = [\<lparr>tile_id = ''email'', label = ''Email'', url = ''https://outlook.office.com'',
          icon = ''Mail'', imageUrl = None, description = None\<rparr>], uploadingId = None,
        draggedIndex = None, dragOverIndex = None, alerts = [], console_errors = [],
        pending_uploads = []\<rparr>"]
  by (simp add: upload_name_def split_pop_def string_of_nat.simps)

text \<open>
  What \<^verbatim>\<open>handleRemoveImage\<close> does for every outcome of the removal: for a non-empty URL the
  \<^verbatim>\<open>imageUrl\<close> of every tile with that id becomes the empty string and no alert is shown;
  a removal that throws is written to the console.
\<close>

lemma handleRemoveImage_clears:
  assumes "u \<noteq> []"
  shows "lm_tiles (handleRemoveImage i (Some u) outcome s)
       = map (\<lambda>t. if tile_id t = i then t\<lparr>imageUrl := Some []\<rparr> else t) (lm_tiles s)
    \<and> alerts (handleRemoveImage i (Some u) outcome s) = alerts s
    \<and> (outcome = StorageThrew \<longrightarrow>
         console_errors (handleRemoveImage i (Some u) outcome s)
           = console_errors s @ [''Error deleting image from storage:''])"
  using assms
  by (cases outcome) (simp_all add: handleRemoveImage_def handleUpdateTile_def)

text \<open>
  C9 fails on the code in one point. A removal that resolves with an error in its result
  (the way \<^verbatim>\<open>handleImageUpload\<close> receives \<^verbatim>\<open>uploadError\<close>, which it throws to its \<^verbatim>\<open>catch\<close>)
  is not logged: \<^verbatim>\<open>handleRemoveImage\<close> never reads the result, so its \<^verbatim>\<open>catch\<close>, which
  logs, is not reached. The field is cleared all the same.
\<close>

theorem handleRemoveImage_returned_error_not_logged:
  "console_errors (handleRemoveImage ''email'' (Some ''https://cdn.example/email-1700000000000.png'')
      StorageError
      \<lparr>lm_tiles = [\<lparr>tile_id = ''email'', label = ''Email'', url = ''https://outlook.office.com'',
          icon = ''Mail'', imageUrl = Some ''https://cdn.example/email-1700000000000.png'',
          description = None\<rparr>], uploadingId = None,
        draggedIndex = None, dragOverIndex = None, alerts = [], console_errors = [],
        pending_uploads = []\<rparr>) = []
   \<and> alerts (handleRemoveImage ''email'' (Some ''https://cdn.example/email-1700000000000.png'')
      StorageError
      \<lparr>lm_tiles = [\<lparr>tile_id = ''email'', label = ''Email'', url = ''https://outlook.office.com'',
          icon = ''Mail'', imageUrl = Some ''https://cdn.example/email-1700000000000.png'',
          description = None\<rparr>], uploadingId = None,
        draggedIndex = None, dragOverIndex = None, alerts = [], console_errors = [],
        pending_uploads = []\<rparr>) = []
   \<and> lm_tiles (handleRemoveImage ''email'' (Some ''https://cdn.example/email-1700000000000.png'')
      StorageError
      \<lparr>lm_tiles = [\<lparr>tile_id = ''email'', label = ''Email'', url = ''https://outlook.office.com'',
          icon = ''Mail'', imageUrl = Some ''https://cdn.example/email-1700000000000.png'',
          description = None\<rparr>], uploadingId = None,
        draggedIndex = None, dragOverIndex = None, alerts = [], console_errors = [],
        pending_uploads = []\<rparr>)
     = [\<lparr>tile_id = ''email'', label = ''Email'', url = ''https://outlook.office.com'',
          icon = ''Mail'', imageUrl = Some [], description = None\<rparr>]"
  by (simp add: handleRemoveImage_def handleUpdateTile_def)

section \<open>Uploads and the save button\<close>

lemma marker_disables_save: "uploadingId s \<noteq> None \<Longrightarrow> click_save saving s = None"
  by (simp add: click_save_def save_disabled_def)

text \<open>
  C4 fails on the code. The marker \<^verbatim>\<open>uploadingId\<close> holds one id, and the \<^verbatim>\<open>finally\<close> block
  of every upload clears it. With two uploads in flight, the first one that settles
  clears the marker: the second upload is still pending, the save button is enabled, and
  a click calls \<^verbatim>\<open>onSave\<close>.
\<close>

theorem overlapping_uploads_enable_save:
  "pending_uploads
     (handleImageUpload_settled (\<lambda>n. ''https://cdn.example/'' @ n) ''email''
        (upload_name ''email'' 1700000000000 \<lparr>file_size = 1024 * 1024, file_name = ''a.png''\<rparr>) StorageOk
        (handleImageUpload_start 1700000000500 ''teams'' \<lparr>file_size = 2 * 1024 * 1024, file_name = ''b.png''\<rparr>
          (handleImageUpload_start 1700000000000 ''email'' \<lparr>file_size = 1024 * 1024, file_name = ''a.png''\<rparr>
            \<lparr>lm_tiles = take 3 DEFAULT_TILES, uploadingId = None, draggedIndex = None,
             dragOverIndex = None, alerts = [], console_errors = [], pending_uploads = []\<rparr>)))
     = [(''teams'', ''teams-1700000000500.png'')]
   \<and> save_disabled False
     (handleImageUpload_settled (\<lambda>n. ''https://cdn.example/'' @ n) ''email''
        (upload_name ''email'' 1700000000000 \<lparr>file_size = 1024 * 1024, file_name = ''a.png''\<rparr>) StorageOk
        (handleImageUpload_start 1700000000500 ''teams'' \<lparr>file_size = 2 * 1024 * 1024, file_name = ''b.png''\<rparr>
          (handleImageUpload_start 1700000000000 ''email'' \<lparr>file_size = 1024 * 1024, file_name = ''a.png''\<rparr>
            \<lparr>lm_tiles = take 3 DEFAULT_TILES, uploadingId = None, draggedIndex = None,
             dragOverIndex = None, alerts = [], console_errors = [], pending_uploads = []\<rparr>)))
     = False
   \<and> click_save False
     (handleImageUpload_settled (\<lambda>n. ''https://cdn.example/'' @ n) ''email''
        (upload_name ''email'' 1700000000000 \<lparr>file_size = 1024 * 1024, file_name = ''a.png''\<rparr>) StorageOk
        (handleImageUpload_start 1700000000500 ''teams'' \<lparr>file_size = 2 * 1024 * 1024, file_name = ''b.png''\<rparr>
          (handleImageUpload_start 1700000000000 ''email'' \<lparr>file_size = 1024 * 1024, file_name = ''a.png''\<rparr>
            \<lparr>lm_tiles = take 3 DEFAULT_TILES, uploadingId = None, draggedIndex = None,
             dragOverIndex = None, alerts = [], console_errors = [], pending_uploads = []\<rparr>)))
     \<noteq> None"
  by (simp add: handleImageUpload_settled_def handleImageUpload_start_def handleUpdateTile_def
      save_disabled_def click_save_def upload_name_def split_pop_def string_of_nat.simps)

end
